theory Spec2Isabelle
  imports Complex_Main
begin

section \<open>The task runner of \<open>tasks.py\<close>\<close>

text \<open>
  \<open>tasks.py\<close> keeps a module-level dictionary \<open>tasks\<close>, fills it through the decorator
  \<open>task(inputs, outputs)\<close> and walks it in \<open>run_tasks(force)\<close>. The embedding below follows
  the file function by function. Everything the Python does beyond returning a value is
  written out: the registry, the filesystem, the printed lines and the invoked routines
  are fields of one program state, and every exception is a value.
\<close>

subsection \<open>Data\<close>

text \<open>
  A file named in \<open>inputs\<close> or \<open>outputs\<close> is, by the docstring of \<open>task\<close>, a string or a
  \<open>pathlib.Path\<close> object. \<open>os.path.exists\<close> and \<open>os.path.getmtime\<close> accept both; \<open>str.join\<close>
  accepts strings only.
\<close>

datatype path = StrPath string | PathObj string

text \<open>\<open>str(f)\<close>, which is also the file the operating system is asked about.\<close>

fun py_str :: "path \<Rightarrow> string" where
  "py_str (StrPath s) = s"
| "py_str (PathObj s) = s"

text \<open>
  The filesystem, as far as the two queries of the module see it: a file that exists has
  a modification time. \<open>getmtime\<close> returns a float; only its order and the constant \<open>0\<close>
  are used, so times are real numbers.
\<close>

type_synonym filesystem = "string \<rightharpoonup> real"

text \<open>
  A work routine, a function made by \<open>def\<close>: its \<open>__name__\<close>, the file \<open>inspect.getfile\<close>
  reports for it, and what a call does to the filesystem (it raises, or it returns and
  leaves a new filesystem). The routine is opaque to the module; a routine that registers
  tasks or rewrites \<open>sys.argv\<close> while a run is under way is not covered.
\<close>

record func =
  fname :: string
  getfile :: string
  body :: "filesystem \<Rightarrow> string + filesystem"

text \<open>One value of the dictionary \<open>tasks\<close> (lines 30-34).\<close>

record task_entry =
  callable :: func
  inputs :: "path list"
  outputs :: "path list"

text \<open>The exceptions that can leave \<open>run_tasks\<close>.\<close>

datatype pyerror =
    FileNotFoundError string  \<comment> \<open>raised at line 66, with its message\<close>
  | TypeError nat             \<comment> \<open>\<open>str.join\<close>: sequence item \<open>i\<close> is not a \<open>str\<close>\<close>
  | NameError string          \<comment> \<open>a name that is bound nowhere\<close>
  | StatError string          \<comment> \<open>what \<open>getmtime\<close> raises for a file that does not exist\<close>
  | WorkError string          \<comment> \<open>whatever a work routine raised\<close>

text \<open>
  The program state: the module global \<open>tasks\<close> (a \<open>dict\<close>, which iterates in insertion
  order, so an association list), \<open>sys.argv\<close>, the filesystem, the lines printed so far
  and the routines invoked so far, oldest first.
\<close>

record state =
  tasks :: "(string \<times> task_entry) list"
  argv :: "string list"
  files :: filesystem
  stdout :: "string list"
  calls :: "func list"

subsection \<open>Python primitives\<close>

text \<open>
  \<open>d[k] = v\<close> on a \<open>dict\<close>: a key that is present keeps its place and gets the new value,
  a new key goes to the end.
\<close>

fun dict_setitem :: "('k \<times> 'v) list \<Rightarrow> 'k \<Rightarrow> 'v \<Rightarrow> ('k \<times> 'v) list" where
  "dict_setitem [] k v = [(k, v)]"
| "dict_setitem ((k', v') # kvs) k v =
     (if k' = k then (k', v) # kvs else (k', v') # dict_setitem kvs k v)"

text \<open>\<open>x or []\<close> for an optional list argument whose default is \<open>None\<close>.\<close>

fun or_empty :: "'a list option \<Rightarrow> 'a list" where
  "or_empty None = []"
| "or_empty (Some xs) = (if xs = [] then [] else xs)"

text \<open>\<open>sep.join(xs)\<close> on strings.\<close>

fun join :: "string \<Rightarrow> string list \<Rightarrow> string" where
  "join sep [] = []"
| "join sep [x] = x"
| "join sep (x # y # ys) = x @ sep @ join sep (y # ys)"

text \<open>The index of the first item that is not a \<open>str\<close>, counted from \<open>i\<close>.\<close>

fun first_non_str :: "nat \<Rightarrow> path list \<Rightarrow> nat option" where
  "first_non_str i [] = None"
| "first_non_str i (StrPath s # ps) = first_non_str (Suc i) ps"
| "first_non_str i (PathObj s # ps) = Some i"

text \<open>\<open>sep.join(paths)\<close> on the paths themselves: a \<open>TypeError\<close> unless all are strings.\<close>

definition join_paths :: "string \<Rightarrow> path list \<Rightarrow> pyerror + string" where
  "join_paths sep ps =
     (case first_non_str 0 ps of
        Some i \<Rightarrow> Inl (TypeError i)
      | None \<Rightarrow> Inr (join sep (map py_str ps)))"

definition exists :: "filesystem \<Rightarrow> path \<Rightarrow> bool" where
  "exists fs p = (fs (py_str p) \<noteq> None)"

definition getmtime :: "filesystem \<Rightarrow> path \<Rightarrow> pyerror + real" where
  "getmtime fs p =
     (case fs (py_str p) of None \<Rightarrow> Inl (StatError (py_str p)) | Some m \<Rightarrow> Inr m)"

text \<open>\<open>max(xs, default=d)\<close>.\<close>

fun max_default :: "real list \<Rightarrow> real \<Rightarrow> real" where
  "max_default [] d = d"
| "max_default (x # xs) d = foldl max x xs"

subsection \<open>Registration: \<open>task\<close> (lines 11-36)\<close>

text \<open>
  \<open>task(inputs, outputs)(func)\<close>: stores the entry under \<open>func.__name__\<close> and returns
  \<open>func\<close>.
\<close>

definition task :: "path list option \<Rightarrow> path list option \<Rightarrow> func \<Rightarrow> state \<Rightarrow> func \<times> state" where
  "task ins outs f st =
     (f, st\<lparr>tasks := dict_setitem (tasks st) (fname f)
                 \<lparr>callable = f, inputs = or_empty ins, outputs = or_empty outs\<rparr>\<rparr>)"

subsection \<open>The helpers (lines 95-103)\<close>

definition missing_paths :: "filesystem \<Rightarrow> path list \<Rightarrow> path list" where
  "missing_paths fs paths = filter (\<lambda>p. \<not> exists fs p) paths"

text \<open>The generator \<open>getmtime(path) for path in ...\<close>, stopped by the first failing read.\<close>

fun getmtimes :: "filesystem \<Rightarrow> path list \<Rightarrow> pyerror + real list" where
  "getmtimes fs [] = Inr []"
| "getmtimes fs (p # ps) =
     (case getmtime fs p of
        Inl e \<Rightarrow> Inl e
      | Inr m \<Rightarrow> (case getmtimes fs ps of Inl e \<Rightarrow> Inl e | Inr ms \<Rightarrow> Inr (m # ms)))"

text \<open>The comprehension of line 103.\<close>

fun older_than :: "filesystem \<Rightarrow> real \<Rightarrow> path list \<Rightarrow> pyerror + path list" where
  "older_than fs threshold [] = Inr []"
| "older_than fs threshold (p # ps) =
     (case getmtime fs p of
        Inl e \<Rightarrow> Inl e
      | Inr m \<Rightarrow>
          (case older_than fs threshold ps of
             Inl e \<Rightarrow> Inl e
           | Inr r \<Rightarrow> Inr (if m < threshold then p # r else r)))"

definition out_of_date_outputs :: "filesystem \<Rightarrow> task_entry \<Rightarrow> pyerror + path list" where
  "out_of_date_outputs fs t =
     (case getmtimes fs (inputs t) of
        Inl e \<Rightarrow> Inl e
      | Inr ms \<Rightarrow>
          (let newest_input = max_default ms 0;
               source_filename = StrPath (getfile (callable t))
           in case (if exists fs source_filename then getmtime fs source_filename else Inr 0) of
                Inl e \<Rightarrow> Inl e
              | Inr source_modified \<Rightarrow>
                  older_than fs (max newest_input source_modified) (outputs t)))"

subsection \<open>The run: \<open>run_tasks\<close> (lines 39-92)\<close>

definition print :: "string \<Rightarrow> state \<Rightarrow> state" where
  "print line st = st\<lparr>stdout := stdout st @ [line]\<rparr>"

text \<open>
  Line 90, \<open>task['callable']()\<close>: the routine is invoked; what it raises leaves the run,
  with the state as it was when it raised.
\<close>

definition invoke :: "task_entry \<Rightarrow> state \<Rightarrow> (pyerror \<times> state) + state" where
  "invoke t st =
     (let st1 = st\<lparr>calls := calls st @ [callable t]\<rparr>
      in case body (callable t) (files st1) of
           Inl exn \<Rightarrow> Inl (WorkError exn, st1)
         | Inr fs' \<Rightarrow> Inr (st1\<lparr>files := fs'\<rparr>))"

text \<open>
  Line 80 reads the name \<open>outputs\<close>. \<open>run_tasks\<close> binds no local of that name (its locals
  are \<open>force\<close>, \<open>task_name\<close>, \<open>task\<close>, \<open>missing\<close> and \<open>outdated\<close>), the module binds no global
  of that name (\<open>outputs\<close> is a parameter of \<open>task\<close> only) and it is no builtin: reading it
  raises \<open>NameError\<close>.
\<close>

definition read_outputs :: "pyerror + path list" where
  "read_outputs = Inl (NameError ''outputs'')"

text \<open>One pass of the loop body, lines 65-92, for the item \<open>(task_name, t)\<close>.\<close>

definition run_task :: "bool \<Rightarrow> string \<Rightarrow> task_entry \<Rightarrow> state \<Rightarrow> (pyerror \<times> state) + state" where
  "run_task force task_name t st =
     (let missing = missing_paths (files st) (inputs t) in
      if missing \<noteq> [] then
        (case join_paths '', '' missing of
           Inl e \<Rightarrow> Inl (e, st)
         | Inr listed \<Rightarrow>
             Inl (FileNotFoundError
                    (''Cannot run task '' @ task_name @
                     '' because the following inputs are missing: '' @ listed), st))
      else if force then
        invoke t (print (''Running task '' @ task_name @ '' (forced)...'') st)
      else
        (let missing = missing_paths (files st) (outputs t) in
         if missing \<noteq> [] then
           invoke t (print (''Running task '' @ task_name @ '' (missing outputs: '' @
                            join '', '' (map py_str missing) @ '')...'') st)
         else
           (case out_of_date_outputs (files st) t of
              Inl e \<Rightarrow> Inl (e, st)
            | Inr outdated \<Rightarrow>
                if outdated \<noteq> [] then
                  invoke t (print (''Running task '' @ task_name @ '' (out of date outputs: '' @
                                   join '', '' (map py_str outdated) @ '')...'') st)
                else
                  (case read_outputs of
                     Inl e \<Rightarrow> Inl (e, st)
                   | Inr outs \<Rightarrow>
                       if outs = [] then invoke t st
                       else Inr (print (''Skipped task '' @ task_name) st)))))"

text \<open>The \<open>for\<close> loop of line 64 over \<open>tasks.items()\<close>.\<close>

fun run_loop :: "bool \<Rightarrow> (string \<times> task_entry) list \<Rightarrow> state \<Rightarrow> (pyerror \<times> state) + state" where
  "run_loop force [] st = Inr st"
| "run_loop force ((task_name, t) # rest) st =
     (case run_task force task_name t st of
        Inl x \<Rightarrow> Inl x
      | Inr st' \<Rightarrow> run_loop force rest st')"

definition run_tasks :: "bool \<Rightarrow> state \<Rightarrow> (pyerror \<times> state) + state" where
  "run_tasks force st = run_loop (force \<or> ''--force'' \<in> set (argv st)) (tasks st) st"

subsection \<open>What the specification says of staleness\<close>

text \<open>
  The staleness algorithm in the specification's words, to be compared with
  \<open>out_of_date_outputs\<close>: the newest input time is the maximum modification time among
  the existing inputs, or zero if there are no inputs; the source time is the
  modification time of the routine's file, or zero if that file cannot be located; the
  threshold is the larger of the two; an output is out of date if it exists and its
  modification time is strictly less than the threshold.
\<close>

definition spec_newest_input_time :: "filesystem \<Rightarrow> task_entry \<Rightarrow> real" where
  "spec_newest_input_time fs t =
     (if inputs t = [] then 0
      else Max (set (List.map_filter (\<lambda>p. fs (py_str p)) (inputs t))))"

definition spec_source_modified_time :: "filesystem \<Rightarrow> task_entry \<Rightarrow> real" where
  "spec_source_modified_time fs t =
     (case fs (getfile (callable t)) of None \<Rightarrow> 0 | Some m \<Rightarrow> m)"

definition spec_threshold :: "filesystem \<Rightarrow> task_entry \<Rightarrow> real" where
  "spec_threshold fs t = max (spec_newest_input_time fs t) (spec_source_modified_time fs t)"

definition spec_out_of_date :: "filesystem \<Rightarrow> task_entry \<Rightarrow> path list" where
  "spec_out_of_date fs t =
     filter (\<lambda>p. case fs (py_str p) of None \<Rightarrow> False | Some m \<Rightarrow> m < spec_threshold fs t)
       (outputs t)"

subsection \<open>Notions used in the statements\<close>

text \<open>Every key of the registry is the \<open>__name__\<close> of the routine stored under it.\<close>

definition keys_are_names :: "(string \<times> task_entry) list \<Rightarrow> bool" where
  "keys_are_names kvs = list_all (\<lambda>kv. fst kv = fname (callable (snd kv))) kvs"

text \<open>
  A forced run goes through: each task, when the loop reaches it, finds all its inputs,
  and its routine returns without raising. The filesystem is threaded through the
  routines, since an earlier routine may write what a later task reads.
\<close>

fun inputs_present_and_work_returns :: "(string \<times> task_entry) list \<Rightarrow> filesystem \<Rightarrow> bool" where
  "inputs_present_and_work_returns [] fs = True"
| "inputs_present_and_work_returns ((task_name, t) # rest) fs =
     (missing_paths fs (inputs t) = [] \<and>
      (case body (callable t) fs of
         Inl exn \<Rightarrow> False
       | Inr fs' \<Rightarrow> inputs_present_and_work_returns rest fs'))"

text \<open>The line printed at line 83.\<close>

definition forced_notice :: "string \<times> task_entry \<Rightarrow> string" where
  "forced_notice item = ''Running task '' @ fst item @ '' (forced)...''"

text \<open>The line printed at line 86.\<close>

definition missing_outputs_notice :: "string \<Rightarrow> path list \<Rightarrow> string" where
  "missing_outputs_notice task_name missing =
     ''Running task '' @ task_name @ '' (missing outputs: '' @
     join '', '' (map py_str missing) @ '')...''"

text \<open>What lines 66-69 raise for the missing inputs \<open>missing\<close> of the task \<open>task_name\<close>.\<close>

definition missing_inputs_error :: "string \<Rightarrow> path list \<Rightarrow> pyerror" where
  "missing_inputs_error task_name missing =
     (case join_paths '', '' missing of
        Inl e \<Rightarrow> e
      | Inr listed \<Rightarrow>
          FileNotFoundError (''Cannot run task '' @ task_name @
            '' because the following inputs are missing: '' @ listed))"

subsection \<open>Example programs\<close>

text \<open>
  A build script \<open>make.py\<close> in the manner of the docstrings: \<open>build\<close> reads \<open>src.txt\<close> and
  writes \<open>out.bin\<close>, \<open>notify\<close> reads \<open>src.txt\<close> and declares no outputs, \<open>deploy\<close> reads
  \<open>dist.tar\<close>, which nothing writes.
\<close>

definition build :: func where
  "build = \<lparr>fname = ''build'', getfile = ''make.py'',
            body = (\<lambda>fs. Inr (fs(''out.bin'' \<mapsto> 200)))\<rparr>"

definition notify :: func where
  "notify = \<lparr>fname = ''notify'', getfile = ''make.py'', body = (\<lambda>fs. Inr fs)\<rparr>"

definition deploy :: func where
  "deploy = \<lparr>fname = ''deploy'', getfile = ''make.py'', body = (\<lambda>fs. Inr fs)\<rparr>"

text \<open>A second routine that is also called \<open>build\<close>.\<close>

definition build_again :: func where
  "build_again = \<lparr>fname = ''build'', getfile = ''make.py'',
                  body = (\<lambda>fs. Inr (fs(''out.bin'' \<mapsto> 300)))\<rparr>"

text \<open>The state of a process that has registered nothing yet.\<close>

definition start :: "string list \<Rightarrow> filesystem \<Rightarrow> state" where
  "start args fs = \<lparr>tasks = [], argv = args, files = fs, stdout = [], calls = []\<rparr>"

definition without_output :: filesystem where
  "without_output = [''make.py'' \<mapsto> 50, ''src.txt'' \<mapsto> 100]"

definition fresh_output :: filesystem where
  "fresh_output = [''make.py'' \<mapsto> 50, ''src.txt'' \<mapsto> 100, ''out.bin'' \<mapsto> 200]"

definition several_outputs :: filesystem where
  "several_outputs = [''make.py'' \<mapsto> 50, ''src.txt'' \<mapsto> 100,
                      ''a.bin'' \<mapsto> 50, ''b.bin'' \<mapsto> 100, ''c.bin'' \<mapsto> 200]"

text \<open>\<open>@task(inputs=['src.txt'], outputs=['out.bin']) def build\<close>.\<close>

definition register_build :: "state \<Rightarrow> state" where
  "register_build st = snd (task (Some [StrPath ''src.txt'']) (Some [StrPath ''out.bin'']) build st)"

text \<open>\<open>@task(inputs=['src.txt']) def notify\<close>.\<close>

definition register_notify :: "state \<Rightarrow> state" where
  "register_notify st = snd (task (Some [StrPath ''src.txt'']) None notify st)"

text \<open>\<open>@task(inputs=['dist.tar']) def deploy\<close>.\<close>

definition register_deploy :: "state \<Rightarrow> state" where
  "register_deploy st = snd (task (Some [StrPath ''dist.tar'']) None deploy st)"

text \<open>\<open>@task(inputs=[Path('dist.tar')]) def deploy\<close>.\<close>

definition register_deploy_path :: "state \<Rightarrow> state" where
  "register_deploy_path st = snd (task (Some [PathObj ''dist.tar'']) None deploy st)"

text \<open>\<open>@task() def build\<close>, for the second routine of that name.\<close>

definition register_build_again :: "state \<Rightarrow> state" where
  "register_build_again st = snd (task None None build_again st)"

lemmas example_defs =
  build_def notify_def deploy_def build_again_def start_def without_output_def
  fresh_output_def several_outputs_def register_build_def register_notify_def
  register_deploy_def register_deploy_path_def register_build_again_def task_def

lemmas run_defs =
  run_tasks_def run_task_def missing_paths_def exists_def invoke_def print_def
  join_paths_def read_outputs_def out_of_date_outputs_def getmtime_def

section \<open>The registry\<close>

lemma dict_setitem_keys:
  "map fst (dict_setitem kvs k v) =
     (if k \<in> set (map fst kvs) then map fst kvs else map fst kvs @ [k])"
  by (induction kvs) (auto simp: rev_image_eqI)

lemma dict_setitem_lookup: "map_of (dict_setitem kvs k v) k = Some v"
  by (induction kvs) auto

lemma dict_setitem_others:
  "filter (\<lambda>kv. fst kv \<noteq> k) (dict_setitem kvs k v) = filter (\<lambda>kv. fst kv \<noteq> k) kvs"
  by (induction kvs) auto

lemma dict_setitem_keys_are_names:
  "keys_are_names kvs \<Longrightarrow> k = fname (callable v) \<Longrightarrow> keys_are_names (dict_setitem kvs k v)"
  unfolding keys_are_names_def by (induction kvs) auto

text \<open>Registration touches the registry only, and only the entry of the routine's name.\<close>

lemma task_frame:
  "fst (task ins outs f st) = f"
  "files (snd (task ins outs f st)) = files st"
  "stdout (snd (task ins outs f st)) = stdout st"
  "calls (snd (task ins outs f st)) = calls st"
  "argv (snd (task ins outs f st)) = argv st"
  by (simp_all add: task_def)

lemma task_keys:
  "map fst (tasks (snd (task ins outs f st))) =
     (if fname f \<in> set (map fst (tasks st)) then map fst (tasks st)
      else map fst (tasks st) @ [fname f])"
  by (simp add: task_def dict_setitem_keys)

lemma task_lookup:
  "map_of (tasks (snd (task ins outs f st))) (fname f) =
     Some \<lparr>callable = f, inputs = or_empty ins, outputs = or_empty outs\<rparr>"
  by (simp add: task_def dict_setitem_lookup)

text \<open>
  C1, as amended. Registering A, then B, then a second routine with A's name, in an empty
  registry, leaves exactly two entries, A's name first and B's second: the entry under
  A's name holds the second registration and keeps the place of the first. \<open>run_tasks\<close>
  evaluates the entry of A's name, then B's.
\<close>

theorem reregistration_keeps_position:
  assumes "tasks st = []" and "fname fb \<noteq> fname fa" and "fname fa' = fname fa"
  shows "tasks (snd (task i3 o3 fa' (snd (task i2 o2 fb (snd (task i1 o1 fa st)))))) =
           [(fname fa, \<lparr>callable = fa', inputs = or_empty i3, outputs = or_empty o3\<rparr>),
            (fname fb, \<lparr>callable = fb, inputs = or_empty i2, outputs = or_empty o2\<rparr>)] \<and>
         run_tasks force (snd (task i3 o3 fa' (snd (task i2 o2 fb (snd (task i1 o1 fa st)))))) =
           (case run_task (force \<or> ''--force'' \<in> set (argv st)) (fname fa)
                   \<lparr>callable = fa', inputs = or_empty i3, outputs = or_empty o3\<rparr>
                   (snd (task i3 o3 fa' (snd (task i2 o2 fb (snd (task i1 o1 fa st)))))) of
              Inl x \<Rightarrow> Inl x
            | Inr st1 \<Rightarrow>
                (case run_task (force \<or> ''--force'' \<in> set (argv st)) (fname fb)
                        \<lparr>callable = fb, inputs = or_empty i2, outputs = or_empty o2\<rparr> st1 of
                   Inl x \<Rightarrow> Inl x
                 | Inr st2 \<Rightarrow> Inr st2))"
proof -
  let ?st3 = "snd (task i3 o3 fa' (snd (task i2 o2 fb (snd (task i1 o1 fa st)))))"
  have reg: "tasks ?st3 =
      [(fname fa, \<lparr>callable = fa', inputs = or_empty i3, outputs = or_empty o3\<rparr>),
       (fname fb, \<lparr>callable = fb, inputs = or_empty i2, outputs = or_empty o2\<rparr>)]"
    using assms by (simp add: task_def)
  have "argv ?st3 = argv st" by (simp add: task_frame)
  with reg show ?thesis
    by (simp add: run_tasks_def split: sum.splits)
qed

theorem reregistration_keeps_position_witness:
  "tasks (start [''make.py''] without_output) = [] \<and> fname notify \<noteq> fname build \<and>
   fname build_again = fname build \<and>
   map fst (tasks (register_build_again (register_notify (register_build
      (start [''make.py''] without_output))))) = [''build'', ''notify''] \<and>
   map (callable \<circ> snd) (tasks (register_build_again (register_notify (register_build
      (start [''make.py''] without_output))))) = [build_again, notify]"
  using reregistration_keeps_position
    [of "start [''make.py''] without_output" notify build build_again
        None None "Some [StrPath ''src.txt'']" None
        "Some [StrPath ''src.txt'']" "Some [StrPath ''out.bin'']" False]
  by (simp add: example_defs)

text \<open>
  C1 as stated fails: after registering \<open>build\<close>, \<open>notify\<close> and a second \<open>build\<close>, the
  registry lists \<open>build\<close> before \<open>notify\<close>, and a forced run invokes the second \<open>build\<close>
  first and \<open>notify\<close> after it.
\<close>

theorem reregistration_order_counterexample:
  "map fst (tasks (register_build_again (register_notify (register_build
      (start [''make.py''] without_output))))) = [''build'', ''notify''] \<and>
   map fst (tasks (register_build_again (register_notify (register_build
      (start [''make.py''] without_output))))) \<noteq> [''notify'', ''build''] \<and>
   (case run_tasks True (register_build_again (register_notify (register_build
      (start [''make.py''] without_output)))) of
      Inl x \<Rightarrow> False
    | Inr st' \<Rightarrow>
        calls st' = [build_again, notify] \<and>
        stdout st' = [''Running task build (forced)...'', ''Running task notify (forced)...''])"
  by (simp add: example_defs run_defs)

text \<open>
  C8. A registration call returns the routine it was given; it leaves the filesystem, the
  printed lines, the list of invoked routines and \<open>sys.argv\<close> as they were; the entry
  under the routine's name is the new one; the other entries are the same, in the same
  order; and the keys are those of before, with the routine's name added at the end if
  it was not among them.
\<close>

theorem registration_only_records:
  "fst (task ins outs f st) = f \<and>
   files (snd (task ins outs f st)) = files st \<and>
   stdout (snd (task ins outs f st)) = stdout st \<and>
   calls (snd (task ins outs f st)) = calls st \<and>
   argv (snd (task ins outs f st)) = argv st \<and>
   map_of (tasks (snd (task ins outs f st))) (fname f) =
     Some \<lparr>callable = f, inputs = or_empty ins, outputs = or_empty outs\<rparr> \<and>
   filter (\<lambda>kv. fst kv \<noteq> fname f) (tasks (snd (task ins outs f st))) =
     filter (\<lambda>kv. fst kv \<noteq> fname f) (tasks st) \<and>
   map fst (tasks (snd (task ins outs f st))) =
     (if fname f \<in> set (map fst (tasks st)) then map fst (tasks st)
      else map fst (tasks st) @ [fname f])"
proof -
  have "filter (\<lambda>kv. fst kv \<noteq> fname f) (tasks (snd (task ins outs f st))) =
        filter (\<lambda>kv. fst kv \<noteq> fname f) (tasks st)"
    by (simp add: task_def dict_setitem_others)
  then show ?thesis
    using task_frame [of ins outs f st] task_keys [of ins outs f st] task_lookup [of ins outs f st]
    by simp
qed

text \<open>
  C10. \<open>task\<close> takes no name: the entry goes under the routine's \<open>__name__\<close>, so every key
  of a registry filled through \<open>task\<close> is the name of the routine stored under it. A
  second routine of the same name adds no key, and the entry under the name then holds
  the second routine.
\<close>

theorem key_is_function_name:
  assumes "fname g = fname f"
  shows "map fst (tasks (snd (task i2 o2 g (snd (task i1 o1 f st))))) =
           map fst (tasks (snd (task i1 o1 f st))) \<and>
         map_of (tasks (snd (task i2 o2 g (snd (task i1 o1 f st))))) (fname f) =
           Some \<lparr>callable = g, inputs = or_empty i2, outputs = or_empty o2\<rparr> \<and>
         (keys_are_names (tasks st) \<longrightarrow>
          keys_are_names (tasks (snd (task i2 o2 g (snd (task i1 o1 f st))))))"
  using assms
  by (simp add: task_def dict_setitem_keys dict_setitem_lookup dict_setitem_keys_are_names)

theorem key_is_function_name_witness:
  "fname build_again = fname build \<and> build_again \<noteq> build \<and>
   keys_are_names (tasks (start [''make.py''] without_output)) \<and>
   map fst (tasks (register_build_again (register_build (start [''make.py''] without_output)))) =
     [''build''] \<and>
   map_of (tasks (register_build_again (register_build (start [''make.py''] without_output))))
     ''build'' = Some \<lparr>callable = build_again, inputs = [], outputs = []\<rparr> \<and>
   keys_are_names
     (tasks (register_build_again (register_build (start [''make.py''] without_output))))"
proof -
  have differ: "body build_again Map.empty \<noteq> body build Map.empty"
    by (simp add: build_def build_again_def fun_eq_iff)
  have "build_again \<noteq> build"
    using differ by auto
  then show ?thesis
    using key_is_function_name
      [of build_again build None None "Some [StrPath ''src.txt'']" "Some [StrPath ''out.bin'']"
          "start [''make.py''] without_output"]
    by (simp add: example_defs keys_are_names_def)
qed

section \<open>Staleness\<close>

lemma missing_paths_Cons:
  "missing_paths fs (p # ps) = [] \<longleftrightarrow> fs (py_str p) \<noteq> None \<and> missing_paths fs ps = []"
  by (simp add: missing_paths_def exists_def)

lemma getmtimes_present:
  "missing_paths fs ps = [] \<Longrightarrow> getmtimes fs ps = Inr (List.map_filter (\<lambda>p. fs (py_str p)) ps)"
proof (induction ps)
  case Nil
  show ?case by simp
next
  case (Cons p ps)
  then obtain m where "fs (py_str p) = Some m" and "missing_paths fs ps = []"
    by (auto simp: missing_paths_Cons)
  with Cons.IH show ?case by (simp add: getmtime_def)
qed

lemma map_filter_present_Nil:
  "missing_paths fs ps = [] \<Longrightarrow> List.map_filter (\<lambda>p. fs (py_str p)) ps = [] \<longleftrightarrow> ps = []"
  by (cases ps) (auto simp: missing_paths_Cons)

lemma max_default_Max: "max_default ms d = (if ms = [] then d else Max (set ms))"
proof (cases ms)
  case Nil
  then show ?thesis by simp
next
  case (Cons x xs)
  have "foldl max x xs = fold max xs x"
    by (simp add: foldl_conv_fold max.commute)
  then show ?thesis using Cons Max.set_eq_fold [of x xs] by simp
qed

lemma older_than_present:
  "missing_paths fs ps = [] \<Longrightarrow>
   older_than fs thr ps =
     Inr (filter (\<lambda>p. case fs (py_str p) of None \<Rightarrow> False | Some m \<Rightarrow> m < thr) ps)"
proof (induction ps)
  case Nil
  show ?case by simp
next
  case (Cons p ps)
  then obtain m where "fs (py_str p) = Some m" and "missing_paths fs ps = []"
    by (auto simp: missing_paths_Cons)
  with Cons.IH show ?case by (simp add: getmtime_def)
qed

text \<open>The read of line 101 never fails: \<open>getmtime\<close> is behind \<open>exists\<close>.\<close>

lemma source_modified_read:
  "(if exists fs (StrPath src) then getmtime fs (StrPath src) else Inr 0) =
   Inr (case fs src of None \<Rightarrow> 0 | Some m \<Rightarrow> m)"
  by (simp add: exists_def getmtime_def split: option.splits)

lemma out_of_date_outputs_present:
  assumes "missing_paths fs (inputs t) = []" and "missing_paths fs (outputs t) = []"
  shows "out_of_date_outputs fs t = Inr (spec_out_of_date fs t)"
proof -
  have "max_default (List.map_filter (\<lambda>p. fs (py_str p)) (inputs t)) 0 =
        spec_newest_input_time fs t"
    using assms(1) by (simp add: max_default_Max spec_newest_input_time_def map_filter_present_Nil)
  then show ?thesis
    using assms
    unfolding spec_out_of_date_def spec_threshold_def spec_source_modified_time_def
    by (simp add: out_of_date_outputs_def getmtimes_present source_modified_read
        older_than_present)
qed

text \<open>
  C5. Where the inputs and the outputs of a task all exist (as they do wherever
  \<open>run_tasks\<close> calls it), \<open>_out_of_date_outputs\<close> returns the outputs that the
  specification calls out of date: those whose modification time is strictly less than
  the larger of the newest input time (zero without inputs) and the modification time of
  the routine's file (zero if there is no such file). An output whose modification time
  is the threshold is not among them.
\<close>

theorem out_of_date_outputs_refines_spec:
  assumes "missing_paths fs (inputs t) = []" and "missing_paths fs (outputs t) = []"
  shows "out_of_date_outputs fs t = Inr (spec_out_of_date fs t) \<and>
         (\<forall>p r. fs (py_str p) = Some (spec_threshold fs t) \<longrightarrow>
                out_of_date_outputs fs t = Inr r \<longrightarrow> p \<notin> set r)"
proof -
  have eq: "out_of_date_outputs fs t = Inr (spec_out_of_date fs t)"
    using assms by (rule out_of_date_outputs_present)
  have "p \<notin> set (spec_out_of_date fs t)" if "fs (py_str p) = Some (spec_threshold fs t)" for p
    using that by (simp add: spec_out_of_date_def)
  with eq show ?thesis by simp
qed

theorem out_of_date_outputs_refines_spec_witness:
  "missing_paths several_outputs [StrPath ''src.txt''] = [] \<and>
   missing_paths several_outputs [StrPath ''a.bin'', PathObj ''b.bin'', StrPath ''c.bin''] = [] \<and>
   out_of_date_outputs several_outputs
     \<lparr>callable = build, inputs = [StrPath ''src.txt''],
      outputs = [StrPath ''a.bin'', PathObj ''b.bin'', StrPath ''c.bin'']\<rparr> =
     Inr [StrPath ''a.bin''] \<and>
   spec_threshold several_outputs
     \<lparr>callable = build, inputs = [StrPath ''src.txt''],
      outputs = [StrPath ''a.bin'', PathObj ''b.bin'', StrPath ''c.bin'']\<rparr> = 100"
  using out_of_date_outputs_refines_spec
    [of several_outputs
        "\<lparr>callable = build, inputs = [StrPath ''src.txt''],
          outputs = [StrPath ''a.bin'', PathObj ''b.bin'', StrPath ''c.bin'']\<rparr>"]
  by (simp add: several_outputs_def build_def missing_paths_def exists_def spec_out_of_date_def
      spec_threshold_def spec_newest_input_time_def spec_source_modified_time_def)

section \<open>The run\<close>

lemma run_task_missing_inputs:
  "missing_paths (files st) (inputs t) \<noteq> [] \<Longrightarrow>
   run_task force task_name t st =
     Inl (missing_inputs_error task_name (missing_paths (files st) (inputs t)), st)"
  by (simp add: run_task_def missing_inputs_error_def split: sum.splits)

lemma run_task_forced:
  "missing_paths (files st) (inputs t) = [] \<Longrightarrow>
   run_task True task_name t st = invoke t (print (forced_notice (task_name, t)) st)"
  by (simp add: run_task_def forced_notice_def)

lemma run_task_missing_outputs:
  "missing_paths (files st) (inputs t) = [] \<Longrightarrow>
   missing_paths (files st) (outputs t) \<noteq> [] \<Longrightarrow>
   run_task False task_name t st =
     invoke t (print (missing_outputs_notice task_name (missing_paths (files st) (outputs t))) st)"
  by (simp add: run_task_def missing_outputs_notice_def)

lemma run_loop_append:
  "run_loop force (pre @ rest) st =
     (case run_loop force pre st of Inl x \<Rightarrow> Inl x | Inr st1 \<Rightarrow> run_loop force rest st1)"
  by (induction pre arbitrary: st) (auto split: sum.splits)

text \<open>No read of a modification time fails in a run.\<close>

lemma invoke_no_StatError: "invoke t st \<noteq> Inl (StatError p, s)"
  by (simp add: invoke_def Let_def split: sum.splits)

lemma missing_inputs_error_no_StatError: "missing_inputs_error task_name ps \<noteq> StatError p"
  by (simp add: missing_inputs_error_def join_paths_def split: option.splits)

lemma run_task_no_StatError: "run_task force task_name t st \<noteq> Inl (StatError p, s)"
proof (cases "missing_paths (files st) (inputs t) = []")
  case False
  then show ?thesis
    by (simp add: run_task_missing_inputs missing_inputs_error_no_StatError)
next
  case ins: True
  show ?thesis
  proof (cases "missing_paths (files st) (outputs t) = []")
    case False
    with ins show ?thesis by (simp add: run_task_def invoke_no_StatError)
  next
    case True
    with ins have "out_of_date_outputs (files st) t = Inr (spec_out_of_date (files st) t)"
      by (rule out_of_date_outputs_present)
    with ins True show ?thesis
      by (simp add: run_task_def invoke_no_StatError read_outputs_def)
  qed
qed

lemma run_loop_no_StatError: "run_loop force items st \<noteq> Inl (StatError p, s)"
proof (induction items arbitrary: st)
  case Nil
  show ?case by simp
next
  case (Cons item items)
  obtain task_name t where "item = (task_name, t)" by (cases item)
  with Cons.IH show ?case
    by (simp add: run_task_no_StatError split: sum.splits)
qed

text \<open>A forced run that goes through invokes every routine, in the order of the registry.\<close>

lemma forced_loop:
  "inputs_present_and_work_returns items (files st) \<Longrightarrow>
   \<exists>st'. run_loop True items st = Inr st' \<and>
         calls st' = calls st @ map (callable \<circ> snd) items \<and>
         stdout st' = stdout st @ map forced_notice items"
proof (induction items arbitrary: st)
  case Nil
  show ?case by simp
next
  case (Cons item items)
  obtain task_name t where item: "item = (task_name, t)" by (cases item)
  from Cons.prems item obtain fs' where
    ins: "missing_paths (files st) (inputs t) = []" and
    ret: "body (callable t) (files st) = Inr fs'" and
    rest: "inputs_present_and_work_returns items fs'"
    by (auto split: sum.splits)
  define st1 where
    "st1 = (print (forced_notice (task_name, t)) st)
             \<lparr>calls := calls st @ [callable t], files := fs'\<rparr>"
  have step: "run_task True task_name t st = Inr st1"
    using ins ret by (simp add: run_task_forced invoke_def print_def st1_def)
  have "inputs_present_and_work_returns items (files st1)"
    using rest by (simp add: st1_def)
  from Cons.IH [OF this] obtain st' where
    "run_loop True items st1 = Inr st'"
    "calls st' = calls st1 @ map (callable \<circ> snd) items"
    "stdout st' = stdout st1 @ map forced_notice items"
    by blast
  then show ?case
    using step item by (simp add: st1_def print_def)
qed

text \<open>
  C6. With \<open>force\<close> true, or \<open>--force\<close> on the command line, in a run where each task finds
  its inputs when the loop reaches it and each routine returns, \<open>run_tasks\<close> returns, has
  invoked the routine of every entry of the registry once, in the order of the registry,
  and has printed the notice "forced" for each, whatever the state of the outputs.
\<close>

theorem forced_run_invokes_every_task:
  assumes "force \<or> ''--force'' \<in> set (argv st)"
    and "inputs_present_and_work_returns (tasks st) (files st)"
  shows "\<exists>st'. run_tasks force st = Inr st' \<and>
           calls st' = calls st @ map (callable \<circ> snd) (tasks st) \<and>
           stdout st' = stdout st @ map forced_notice (tasks st)"
  using assms forced_loop [of "tasks st" st] by (simp add: run_tasks_def)

theorem forced_run_invokes_every_task_witness:
  "(False \<or> ''--force'' \<in> set (argv (register_notify (register_build
      (start [''make.py'', ''--force''] fresh_output))))) \<and>
   inputs_present_and_work_returns
     (tasks (register_notify (register_build (start [''make.py'', ''--force''] fresh_output))))
     (files (register_notify (register_build (start [''make.py'', ''--force''] fresh_output)))) \<and>
   (\<exists>st'. run_tasks False (register_notify (register_build
             (start [''make.py'', ''--force''] fresh_output))) = Inr st' \<and>
          calls st' = [build, notify] \<and>
          stdout st' = [''Running task build (forced)...'', ''Running task notify (forced)...''])"
  using forced_run_invokes_every_task
    [of False "register_notify (register_build (start [''make.py'', ''--force''] fresh_output))"]
  by (simp add: example_defs missing_paths_def exists_def forced_notice_def)

text \<open>
  C7, as amended. A task whose inputs all exist and one of whose outputs does not exist
  is run: the routine is invoked after the notice "missing outputs", with the missing
  ones listed, when the run is not forced, and after the notice "forced" when it is. No
  modification time is read on the way. In no run at all does the read of a modification
  time fail: \<open>_out_of_date_outputs\<close> is reached only where all inputs and all outputs
  exist.
\<close>

theorem missing_output_runs_without_stat:
  assumes "missing_paths (files st) (inputs t) = []"
    and "missing_paths (files st) (outputs t) \<noteq> []"
  shows "run_task force task_name t st =
           invoke t (print (if force then forced_notice (task_name, t)
                            else missing_outputs_notice task_name
                                   (missing_paths (files st) (outputs t))) st) \<and>
         (\<forall>force' st' p s. run_tasks force' st' \<noteq> Inl (StatError p, s))"
proof -
  have "run_task force task_name t st =
          invoke t (print (if force then forced_notice (task_name, t)
                           else missing_outputs_notice task_name
                                  (missing_paths (files st) (outputs t))) st)"
    using assms by (cases force) (simp_all add: run_task_forced run_task_missing_outputs)
  moreover have "run_tasks force' st' \<noteq> Inl (StatError p, s)" for force' st' p s
    by (simp add: run_tasks_def run_loop_no_StatError)
  ultimately show ?thesis by simp
qed

theorem missing_output_runs_without_stat_witness:
  "missing_paths (files (register_build (start [''make.py''] without_output)))
     [StrPath ''src.txt''] = [] \<and>
   missing_paths (files (register_build (start [''make.py''] without_output)))
     [StrPath ''out.bin''] \<noteq> [] \<and>
   (case run_task False ''build''
           \<lparr>callable = build, inputs = [StrPath ''src.txt''], outputs = [StrPath ''out.bin'']\<rparr>
           (register_build (start [''make.py''] without_output)) of
      Inl x \<Rightarrow> False
    | Inr st' \<Rightarrow>
        calls st' = [build] \<and>
        stdout st' = [''Running task build (missing outputs: out.bin)...''])"
  using missing_output_runs_without_stat
    [of "register_build (start [''make.py''] without_output)"
        "\<lparr>callable = build, inputs = [StrPath ''src.txt''], outputs = [StrPath ''out.bin'']\<rparr>"
        False "''build''"]
  by (simp add: example_defs missing_paths_def exists_def invoke_def print_def
      missing_outputs_notice_def)

text \<open>
  C7 as stated fails where the run is forced: \<open>out.bin\<close> does not exist, and the reason
  reported for running \<open>build\<close> is "forced", not "missing outputs".
\<close>

theorem missing_output_reason_counterexample:
  "missing_paths (files (register_build (start [''make.py''] without_output)))
     [StrPath ''out.bin''] = [StrPath ''out.bin''] \<and>
   (case run_tasks True (register_build (start [''make.py''] without_output)) of
      Inl x \<Rightarrow> False
    | Inr st' \<Rightarrow>
        calls st' = [build] \<and>
        stdout st' = [''Running task build (forced)...''] \<and>
        stdout st' \<noteq> [''Running task build (missing outputs: out.bin)...''])"
  by (simp add: example_defs run_defs)

text \<open>
  C9. If the loop has gone through the tasks before \<open>task_name\<close> and one of the inputs of
  \<open>task_name\<close> does not exist then, forced or not, the run ends there with the error of
  lines 66-69, in the state the earlier tasks left: the routine of \<open>task_name\<close> and those
  of the later tasks are not invoked.
\<close>

theorem force_keeps_missing_input_check:
  assumes "tasks st = pre @ (task_name, t) # rest"
    and "run_loop (force \<or> ''--force'' \<in> set (argv st)) pre st = Inr st1"
    and "missing_paths (files st1) (inputs t) \<noteq> []"
  shows "run_tasks force st =
           Inl (missing_inputs_error task_name (missing_paths (files st1) (inputs t)), st1)"
  using assms by (simp add: run_tasks_def run_loop_append run_task_missing_inputs)

theorem force_keeps_missing_input_check_witness:
  "tasks (register_notify (register_deploy (register_build (start [''make.py''] without_output)))) =
     [(''build'', \<lparr>callable = build, inputs = [StrPath ''src.txt''],
                  outputs = [StrPath ''out.bin'']\<rparr>)] @
     (''deploy'', \<lparr>callable = deploy, inputs = [StrPath ''dist.tar''], outputs = []\<rparr>) #
     [(''notify'', \<lparr>callable = notify, inputs = [StrPath ''src.txt''], outputs = []\<rparr>)] \<and>
   (case run_tasks True
           (register_notify (register_deploy (register_build (start [''make.py''] without_output)))) of
      Inl (e, st') \<Rightarrow>
        e = FileNotFoundError
              ''Cannot run task deploy because the following inputs are missing: dist.tar'' \<and>
        calls st' = [build] \<and>
        stdout st' = [''Running task build (forced)...'']
    | Inr st' \<Rightarrow> False)"
proof -
  let ?st = "register_notify (register_deploy (register_build (start [''make.py''] without_output)))"
  let ?st1 = "?st\<lparr>stdout := [''Running task build (forced)...''], calls := [build],
                  files := without_output(''out.bin'' \<mapsto> 200)\<rparr>"
  have reg: "tasks ?st =
     [(''build'', \<lparr>callable = build, inputs = [StrPath ''src.txt''],
                  outputs = [StrPath ''out.bin'']\<rparr>)] @
     (''deploy'', \<lparr>callable = deploy, inputs = [StrPath ''dist.tar''], outputs = []\<rparr>) #
     [(''notify'', \<lparr>callable = notify, inputs = [StrPath ''src.txt''], outputs = []\<rparr>)]"
    by (simp add: example_defs)
  have pre: "run_loop (True \<or> ''--force'' \<in> set (argv ?st))
               [(''build'', \<lparr>callable = build, inputs = [StrPath ''src.txt''],
                            outputs = [StrPath ''out.bin'']\<rparr>)] ?st = Inr ?st1"
    by (simp add: example_defs run_defs)
  have miss: "missing_paths (files ?st1)
                (inputs \<lparr>callable = deploy, inputs = [StrPath ''dist.tar''], outputs = []\<rparr>) \<noteq> []"
    by (simp add: example_defs missing_paths_def exists_def)
  show ?thesis
    using force_keeps_missing_input_check [OF reg pre miss] reg
    by (simp add: example_defs missing_paths_def exists_def missing_inputs_error_def join_paths_def)
qed

section \<open>Where the run does not do what is asked of it\<close>

text \<open>
  When the run is not forced and the task has nothing missing and nothing out of date,
  line 80 is evaluated, and it raises. So does it for a task that declares no outputs.
\<close>

lemma up_to_date_raises_NameError:
  assumes "missing_paths (files st) (inputs t) = []"
    and "missing_paths (files st) (outputs t) = []"
    and "spec_out_of_date (files st) t = []"
  shows "run_task False task_name t st = Inl (NameError ''outputs'', st)"
  using assms out_of_date_outputs_present [of "files st" t]
  by (simp add: run_task_def read_outputs_def)

lemma no_outputs_raises_NameError:
  assumes "missing_paths (files st) (inputs t) = []" and "outputs t = []"
  shows "run_task False task_name t st = Inl (NameError ''outputs'', st)"
  using assms
  by (intro up_to_date_raises_NameError) (simp_all add: missing_paths_def spec_out_of_date_def)

text \<open>The loop body never skips: whenever it returns, it has invoked the routine.\<close>

lemma run_task_returns_after_invoke:
  assumes "run_task force task_name t st = Inr st'"
  shows "calls st' = calls st @ [callable t]"
proof -
  have inv: "calls s' = calls s @ [callable t]" if "invoke t s = Inr s'" for s s'
    using that by (auto simp: invoke_def Let_def split: sum.splits)
  show ?thesis
    using assms
    by (auto simp: run_task_def Let_def read_outputs_def print_def
        split: if_splits sum.splits dest!: inv)
qed

text \<open>Missing inputs that are all strings are reported as lines 66-69 intend.\<close>

lemma missing_str_inputs_error:
  "first_non_str 0 ps = None \<Longrightarrow>
   missing_inputs_error task_name ps =
     FileNotFoundError (''Cannot run task '' @ task_name @
       '' because the following inputs are missing: '' @ join '', '' (map py_str ps))"
  by (simp add: missing_inputs_error_def join_paths_def)

text \<open>
  C2 fails on the code. \<open>build\<close> has its input, and its output \<open>out.bin\<close> exists and is
  newer than the input and than \<open>make.py\<close>: an unforced run raises \<open>NameError\<close> at line 80,
  having printed nothing, instead of skipping the task. Likewise after a first run that
  built \<open>out.bin\<close>: the second run raises.
\<close>

theorem up_to_date_task_is_not_skipped:
  "run_tasks False (register_build (start [''make.py''] fresh_output)) =
     Inl (NameError ''outputs'', register_build (start [''make.py''] fresh_output)) \<and>
   stdout (register_build (start [''make.py''] fresh_output)) = [] \<and>
   (case run_tasks False (register_build (start [''make.py''] without_output)) of
      Inl x \<Rightarrow> False
    | Inr st1 \<Rightarrow>
        calls st1 = [build] \<and>
        files st1 = fresh_output \<and>
        stdout st1 = [''Running task build (missing outputs: out.bin)...''] \<and>
        run_tasks False st1 = Inl (NameError ''outputs'', st1))"
  by (simp add: example_defs run_defs spec_out_of_date_def)

text \<open>
  C3 fails on the code. \<open>notify\<close> declares no outputs and its input exists: an unforced
  run raises \<open>NameError\<close> at line 80 and does not invoke the routine.
\<close>

theorem task_without_outputs_is_not_run:
  "tasks (register_notify (start [''make.py''] fresh_output)) =
     [(''notify'', \<lparr>callable = notify, inputs = [StrPath ''src.txt''], outputs = []\<rparr>)] \<and>
   run_tasks False (register_notify (start [''make.py''] fresh_output)) =
     Inl (NameError ''outputs'', register_notify (start [''make.py''] fresh_output)) \<and>
   calls (register_notify (start [''make.py''] fresh_output)) = []"
  by (simp add: example_defs run_defs)

text \<open>
  C4 fails on the code where a missing input is a \<open>Path\<close> object: the run ends before
  the routine is invoked, but with the \<open>TypeError\<close> of \<open>str.join\<close>, which names neither
  the task nor the missing file. With the same input given as a string the error is the
  one the claim describes.
\<close>

theorem missing_path_object_input_raises_TypeError:
  "run_tasks False (register_deploy_path (start [''make.py''] without_output)) =
     Inl (TypeError 0, register_deploy_path (start [''make.py''] without_output)) \<and>
   calls (register_deploy_path (start [''make.py''] without_output)) = [] \<and>
   run_tasks False (register_deploy (start [''make.py''] without_output)) =
     Inl (FileNotFoundError
            ''Cannot run task deploy because the following inputs are missing: dist.tar'',
          register_deploy (start [''make.py''] without_output))"
  by (simp add: example_defs run_defs)

end
